theory Spec2Isabelle
  imports Main "HOL-Library.AList"
begin

section \<open>The debugged fixture: fizzbuzz.py\<close>

text \<open>
  Python's \<open>int\<close> is unbounded: it is modelled as \<open>int\<close>.  Python's \<open>%\<close>
  with a positive divisor gives a result in \<open>0..<d\<close> for every sign of the dividend, as
  \<open>mod\<close> on \<open>int\<close> does.  A Python \<open>str\<close> is held as the list of bytes of its
  UTF-8 encoding; the text of this file's programs is ASCII, where a byte is a character.
\<close>

type_synonym pystr = string
type_synonym bytes = string

definition digit_char :: "nat \<Rightarrow> char" where
  "digit_char d = ''0123456789'' ! d"

text \<open>\<open>str(n)\<close> for \<open>n \<ge> 0\<close>: the decimal digits, most significant first, no leading zero.\<close>

fun str_nat :: "nat \<Rightarrow> pystr" where
  "str_nat n = (if n < 10 then [digit_char n] else str_nat (n div 10) @ [digit_char (n mod 10)])"

declare str_nat.simps [simp del]

text \<open>\<open>str(n)\<close> on an integer: a minus sign before the digits of a negative number.\<close>

definition str :: "int \<Rightarrow> pystr" where
  "str n = (if n < 0 then CHR ''-'' # str_nat (nat (- n)) else str_nat (nat n))"

definition fizzbuzz :: "int \<Rightarrow> pystr" where
  "fizzbuzz n =
     (if n mod 15 = 0 then ''FizzBuzz''
      else if n mod 3 = 0 then ''Fizz''
      else if n mod 5 = 0 then ''Buzz''
      else str n)"

section \<open>Python text and byte primitives used by the DAP scripts\<close>

datatype error =
  ValueError | UnicodeDecodeError | JSONDecodeError | AttributeError | TypeError | KeyError
  | IndexError | TimeoutError

definition CR :: char where "CR = CHR 0x0D"
definition LF :: char where "LF = CHR 0x0A"
definition CRLF :: pystr where "CRLF = [CR, LF]"

definition startswith :: "pystr \<Rightarrow> pystr \<Rightarrow> bool" where
  "startswith s p = (take (length p) s = p)"

definition endswith :: "bytes \<Rightarrow> bytes \<Rightarrow> bool" where
  "endswith s p = (length p \<le> length s \<and> drop (length s - length p) s = p)"

text \<open>
  \<open>bytes.decode('utf-8')\<close>: the strict decoder accepts exactly the well-formed UTF-8
  sequences (no overlong forms, no surrogates, nothing above U+10FFFF) and raises
  UnicodeDecodeError otherwise.  A \<open>str\<close> being held as its UTF-8 bytes, decoding keeps
  the bytes and \<open>str.encode('utf-8')\<close> is the identity.
\<close>

definition cont :: "char \<Rightarrow> bool" where
  "cont c = (0x80 \<le> (of_char c :: nat) \<and> (of_char c :: nat) \<le> 0xBF)"

fun utf8_valid :: "bytes \<Rightarrow> bool" where
  "utf8_valid [] = True"
| "utf8_valid (b # bs) =
     (let n = (of_char b :: nat) in
      if n < 0x80 then utf8_valid bs
      else if 0xC2 \<le> n \<and> n \<le> 0xDF then
        (case bs of c1 # r \<Rightarrow> cont c1 \<and> utf8_valid r | _ \<Rightarrow> False)
      else if 0xE0 \<le> n \<and> n \<le> 0xEF then
        (case bs of
           c1 # c2 # r \<Rightarrow>
             cont c1 \<and> cont c2
             \<and> (if n = 0xE0 then 0xA0 \<le> (of_char c1 :: nat) else True)
             \<and> (if n = 0xED then (of_char c1 :: nat) \<le> 0x9F else True)
             \<and> utf8_valid r
         | _ \<Rightarrow> False)
      else if 0xF0 \<le> n \<and> n \<le> 0xF4 then
        (case bs of
           c1 # c2 # c3 # r \<Rightarrow>
             cont c1 \<and> cont c2 \<and> cont c3
             \<and> (if n = 0xF0 then 0x90 \<le> (of_char c1 :: nat) else True)
             \<and> (if n = 0xF4 then (of_char c1 :: nat) \<le> 0x8F else True)
             \<and> utf8_valid r
         | _ \<Rightarrow> False)
      else False)"

definition decode_utf8 :: "bytes \<Rightarrow> error + pystr" where
  "decode_utf8 b = (if utf8_valid b then Inr b else Inl UnicodeDecodeError)"

definition encode_utf8 :: "pystr \<Rightarrow> bytes" where
  "encode_utf8 s = s"

definition is_ascii :: "char \<Rightarrow> bool" where
  "is_ascii c = ((of_char c :: nat) < 128)"

text \<open>\<open>len(s)\<close> of a \<open>str\<close> counts code points: the bytes that are not continuation bytes.\<close>

definition py_len :: "pystr \<Rightarrow> nat" where
  "py_len s = length (filter (\<lambda>c. \<not> cont c) s)"

text \<open>
  The characters \<open>str.strip()\<close> removes, each as its UTF-8 bytes: the ASCII ones
  (TAB, LF, VT, FF, CR, FS, GS, RS, US, space) and U+0085, U+00A0, U+1680,
  U+2000..U+200A, U+2028, U+2029, U+202F, U+205F, U+3000.
\<close>

definition whitespace :: "pystr list" where
  "whitespace =
     map (\<lambda>c. [c])
       [CHR 0x09, CHR 0x0A, CHR 0x0B, CHR 0x0C, CHR 0x0D, CHR 0x1C, CHR 0x1D, CHR 0x1E,
        CHR 0x1F, CHR 0x20]
     @ [[CHR 0xC2, CHR 0x85], [CHR 0xC2, CHR 0xA0], [CHR 0xE1, CHR 0x9A, CHR 0x80]]
     @ map (\<lambda>c. [CHR 0xE2, CHR 0x80, c])
         [CHR 0x80, CHR 0x81, CHR 0x82, CHR 0x83, CHR 0x84, CHR 0x85, CHR 0x86, CHR 0x87,
          CHR 0x88, CHR 0x89, CHR 0x8A, CHR 0xA8, CHR 0xA9, CHR 0xAF]
     @ [[CHR 0xE2, CHR 0x81, CHR 0x9F], [CHR 0xE3, CHR 0x80, CHR 0x80]]"

text \<open>The number of bytes of the whitespace character a text starts (ends) with; 0 if none.\<close>

definition ws_head :: "pystr \<Rightarrow> nat" where
  "ws_head s = (case find (\<lambda>w. startswith s w) whitespace of None \<Rightarrow> 0 | Some w \<Rightarrow> length w)"

definition ws_last :: "pystr \<Rightarrow> nat" where
  "ws_last s = (case find (\<lambda>w. endswith s w) whitespace of None \<Rightarrow> 0 | Some w \<Rightarrow> length w)"

function lstrip :: "pystr \<Rightarrow> pystr" where
  "lstrip s = (if ws_head s = 0 \<or> s = [] then s else lstrip (drop (ws_head s) s))"
  by pat_completeness auto
termination
  by (relation "measure length") auto

function rstrip :: "pystr \<Rightarrow> pystr" where
  "rstrip s = (if ws_last s = 0 \<or> s = [] then s else rstrip (take (length s - ws_last s) s))"
  by pat_completeness auto
termination
  by (relation "measure length") auto

declare lstrip.simps [simp del] rstrip.simps [simp del]

definition py_strip :: "pystr \<Rightarrow> pystr" where
  "py_strip s = rstrip (lstrip s)"

text \<open>
  \<open>s.split(sep)\<close> for a non-empty separator: cut at every occurrence, left to right,
  occurrences not overlapping.  \<open>cur\<close> is the piece being collected.
\<close>

fun split_from :: "pystr \<Rightarrow> pystr \<Rightarrow> pystr \<Rightarrow> pystr list" where
  "split_from sep cur [] = [cur]"
| "split_from sep cur (c # cs) =
     (if sep \<noteq> [] \<and> startswith (c # cs) sep
      then cur # split_from sep [] (drop (length sep - 1) cs)
      else split_from sep (cur @ [c]) cs)"

definition py_split :: "pystr \<Rightarrow> pystr \<Rightarrow> pystr list" where
  "py_split s sep = split_from sep [] s"

text \<open>\<open>s.split(':', 1)\<close>: cut at the first colon only.\<close>

definition split_colon_1 :: "pystr \<Rightarrow> pystr list" where
  "split_colon_1 s =
     (if CHR '':'' \<in> set s
      then [takeWhile (\<lambda>c. c \<noteq> CHR '':'') s, tl (dropWhile (\<lambda>c. c \<noteq> CHR '':'') s)]
      else [s])"

text \<open>
  \<open>int(s)\<close> on a \<open>str\<close>, base 10: surrounding whitespace is dropped, then an optional
  sign, then decimal digits, where single underscores may stand between digits; anything
  else raises ValueError (here \<open>None\<close>).  CPython also accepts the decimal digits of other
  scripts; the model knows the ASCII digits only and rejects the others.
\<close>

definition is_digit :: "char \<Rightarrow> bool" where
  "is_digit c = (48 \<le> (of_char c :: nat) \<and> (of_char c :: nat) \<le> 57)"

definition digit_val :: "char \<Rightarrow> nat" where
  "digit_val c = of_char c - 48"

fun parse_digits :: "nat \<Rightarrow> pystr \<Rightarrow> nat option" where
  "parse_digits acc [] = Some acc"
| "parse_digits acc (c # cs) =
     (if is_digit c then parse_digits (10 * acc + digit_val c) cs
      else if c = CHR ''_'' \<and> cs \<noteq> [] \<and> is_digit (hd cs) then parse_digits acc cs
      else None)"

definition parse_unsigned :: "pystr \<Rightarrow> nat option" where
  "parse_unsigned s = (case s of [] \<Rightarrow> None | c # _ \<Rightarrow> if is_digit c then parse_digits 0 s else None)"

definition py_int :: "pystr \<Rightarrow> int option" where
  "py_int s =
     (case py_strip s of
        [] \<Rightarrow> None
      | c # r \<Rightarrow>
          if c = CHR ''-'' then map_option (\<lambda>n. - int n) (parse_unsigned r)
          else if c = CHR ''+'' then map_option int (parse_unsigned r)
          else map_option int (parse_unsigned (c # r)))"

section \<open>Messages\<close>

text \<open>
  A DAP message is the Python value \<open>json.loads\<close> returns: \<open>None\<close>, a bool, an int, a
  \<open>str\<close>, a list or a dict with \<open>str\<close> keys.  A dict keeps its insertion order and its
  keys are distinct; it is held as an association list.  Floats do not occur in the
  messages the scripts build or inspect and are left out.
\<close>

datatype json =
  JNull | JBool bool | JInt int | JStr pystr | JArr "json list" | JObj "(pystr \<times> json) list"

text \<open>
  \<open>json.dumps\<close> and \<open>json.loads\<close> belong to the standard library, not to the repository:
  they are parameters of the model.  \<open>loads\<close> gives \<open>None\<close> where the library raises
  JSONDecodeError.
\<close>

record json_codec =
  dumps :: "json \<Rightarrow> pystr"
  loads :: "pystr \<Rightarrow> json option"

text \<open>\<open>message.get(key)\<close>: only a dict has the method.\<close>

definition py_get :: "json \<Rightarrow> pystr \<Rightarrow> error + json option" where
  "py_get message k = (case message of JObj kv \<Rightarrow> Inr (map_of kv k) | _ \<Rightarrow> Inl AttributeError)"

text \<open>Truth value of a Python object, as \<open>if x:\<close> tests it.\<close>

fun truthy :: "json \<Rightarrow> bool" where
  "truthy JNull = False"
| "truthy (JBool b) = b"
| "truthy (JInt i) = (i \<noteq> 0)"
| "truthy (JStr s) = (s \<noteq> [])"
| "truthy (JArr xs) = (xs \<noteq> [])"
| "truthy (JObj kv) = (kv \<noteq> [])"

section \<open>The adapter process and its pipes\<close>

text \<open>
  The adapter is a child process reached through two pipes.  \<open>stdin\<close> holds every byte
  written to the adapter so far, oldest first; \<open>stdout\<close> holds the bytes the adapter has
  written that the client has not read yet.  A read takes bytes from the front of
  \<open>stdout\<close>; one that finds \<open>stdout\<close> empty sees the end of the stream.
\<close>

record process =
  stdin :: bytes
  stdout :: bytes

text \<open>\<open>read(size)\<close> of the unbuffered pipe of test\_dap\_standalone.py (\<open>bufsize=0\<close>): a
  negative size reads everything.\<close>

definition fileio_read :: "int \<Rightarrow> bytes \<Rightarrow> bytes \<times> bytes" where
  "fileio_read n out = (if n < 0 then (out, []) else (take (nat n) out, drop (nat n) out))"

text \<open>\<open>read(size)\<close> of the buffered pipe of the other scripts: \<open>-1\<close> reads everything, a
  smaller size raises ValueError.\<close>

definition buffered_read :: "int \<Rightarrow> bytes \<Rightarrow> error + bytes \<times> bytes" where
  "buffered_read n out =
     (if n < - 1 then Inl ValueError
      else if n = - 1 then Inr (out, [])
      else Inr (take (nat n) out, drop (nat n) out))"

text \<open>\<open>readline()\<close>: up to and including the next line feed, or to the end of the stream.\<close>

definition readline :: "bytes \<Rightarrow> bytes \<times> bytes" where
  "readline out =
     (case dropWhile (\<lambda>c. c \<noteq> LF) out of
        [] \<Rightarrow> (out, [])
      | _ # rest \<Rightarrow> (takeWhile (\<lambda>c. c \<noteq> LF) out @ [LF], rest))"

section \<open>Framing in scripts/test\_dap\_standalone.py\<close>

text \<open>
  \<open>DAPTester._read_message\<close>, first loop: one byte at a time until the bytes read end
  with CR LF CR LF; \<open>None\<close> when the stream ends first.
\<close>

fun read_header :: "bytes \<Rightarrow> bytes \<Rightarrow> (bytes \<times> bytes) option" where
  "read_header header [] = None"
| "read_header header (char # out) =
     (if endswith (header @ [char]) (CRLF @ CRLF) then Some (header @ [char], out)
      else read_header (header @ [char]) out)"

text \<open>
  The \<open>for line in header_str.split('\r\n')\<close> loop with its \<open>else\<close>: the first line that
  starts with \<open>Content-Length:\<close> decides; \<open>line.split(':')[1]\<close> is the text between the
  first and the second colon.
\<close>

fun find_content_length :: "pystr list \<Rightarrow> error + int" where
  "find_content_length [] = Inl ValueError"
| "find_content_length (line # lines) =
     (if startswith line ''Content-Length:'' then
        (case py_split line '':'' of
           _ # v # _ \<Rightarrow> (case py_int (py_strip v) of None \<Rightarrow> Inl ValueError | Some n \<Rightarrow> Inr n)
         | _ \<Rightarrow> Inl IndexError)
      else find_content_length lines)"

text \<open>
  \<open>DAPTester._read_message\<close>.  The result pairs what the call returns or raises with the
  bytes left in the pipe: \<open>Inr None\<close> is the \<open>return None\<close> at the end of the stream,
  \<open>Inl e\<close> an exception.
\<close>

definition DAPTester_read_message :: "json_codec \<Rightarrow> bytes \<Rightarrow> (error + json option) \<times> bytes" where
  "DAPTester_read_message J out =
     (case read_header [] out of
        None \<Rightarrow> (Inr None, [])
      | Some (header, out1) \<Rightarrow>
          (case decode_utf8 header of
             Inl e \<Rightarrow> (Inl e, out1)
           | Inr header_str \<Rightarrow>
               (case find_content_length (py_split header_str CRLF) of
                  Inl e \<Rightarrow> (Inl e, out1)
                | Inr content_length \<Rightarrow>
                    (case fileio_read content_length out1 of
                       (body, out2) \<Rightarrow>
                         (case decode_utf8 body of
                            Inl e \<Rightarrow> (Inl e, out2)
                          | Inr text \<Rightarrow>
                              (case loads J text of
                                 None \<Rightarrow> (Inl JSONDecodeError, out2)
                               | Some message \<Rightarrow> (Inr (Some message), out2)))))))"

text \<open>
  The bytes \<open>DAPTester._send_message\<close> writes for a message: the header with the length
  of the encoded body in bytes, then the body.
\<close>

definition frame :: "json_codec \<Rightarrow> json \<Rightarrow> bytes" where
  "frame J message =
     (let body = encode_utf8 (dumps J message);
          header = encode_utf8 (''Content-Length: '' @ str_nat (length body) @ CRLF @ CRLF)
      in header @ body)"

text \<open>The header line of a frame whose body has \<open>n\<close> bytes.\<close>

definition header_line :: "nat \<Rightarrow> pystr" where
  "header_line n = ''Content-Length: '' @ str_nat n"

section \<open>Framing in test\_correct\_sequence.py and test\_launch\_sequence.py\<close>

text \<open>
  \<open>send_message\<close>: the length in the header is \<open>len(content)\<close> of the \<open>str\<close>, counted in
  characters; header and content are encoded together and written.  The line printed
  afterwards calls \<open>msg.get\<close> and raises on a message that is not a dict, the bytes being
  written already.
\<close>

definition send_message :: "json_codec \<Rightarrow> process \<Rightarrow> json \<Rightarrow> process \<times> (error + unit)" where
  "send_message J proc msg =
     (let content = dumps J msg;
          header = ''Content-Length: '' @ str_nat (py_len content) @ CRLF @ CRLF
      in (proc\<lparr>stdin := stdin proc @ encode_utf8 (header @ content)\<rparr>,
          case msg of JObj kv \<Rightarrow> Inr () | _ \<Rightarrow> Inl AttributeError))"

text \<open>One header line filed: \<open>k, v = line.strip().split(':', 1)\<close>, both parts stripped.\<close>

definition add_header :: "(pystr \<rightharpoonup> pystr) \<Rightarrow> pystr \<Rightarrow> (pystr \<rightharpoonup> pystr)" where
  "add_header headers line =
     (if CHR '':'' \<in> set line then
        (case split_colon_1 (py_strip line) of
           [k, v] \<Rightarrow> headers(py_strip k \<mapsto> py_strip v)
         | _ \<Rightarrow> headers)
      else headers)"

text \<open>
  The header loop of both \<open>read_message\<close> functions: every line that has a colon is filed
  under its key.  The loop ends at a blank line and when the stream has ended (\<open>readline\<close>
  gives the empty line); the flag tells which, the two scripts going on differently there.
  A line that is not UTF-8 raises.
\<close>

function read_headers ::
  "(pystr \<rightharpoonup> pystr) \<Rightarrow> bytes \<Rightarrow> (error + (pystr \<rightharpoonup> pystr) \<times> bool) \<times> bytes" where
  "read_headers headers out =
     (case readline out of
        (raw, out1) \<Rightarrow>
          (case decode_utf8 raw of
             Inl e \<Rightarrow> (Inl e, out1)
           | Inr line \<Rightarrow>
               if line = [] then (Inr (headers, True), out1)
               else if line = CRLF \<or> line = [LF] then (Inr (headers, False), out1)
               else read_headers (add_header headers line) out1))"
  by pat_completeness auto

lemma readline_shorter:
  assumes "readline out = (raw, out1)" and "raw \<noteq> []"
  shows "length out1 < length out"
proof (cases "dropWhile (\<lambda>c. c \<noteq> LF) out")
  case Nil
  with assms show ?thesis by (auto simp: readline_def)
next
  case (Cons a rest)
  have "length (dropWhile (\<lambda>c. c \<noteq> LF) out) \<le> length out" by (rule length_dropWhile_le)
  with Cons assms show ?thesis by (auto simp: readline_def)
qed

termination read_headers
  by (relation "measure (\<lambda>(headers, out). length out)")
     (auto simp: decode_utf8_def split: if_splits dest: readline_shorter [OF sym])

declare read_headers.simps [simp del]

text \<open>\<open>int(headers.get('Content-Length', 0))\<close>: a missing header counts as length 0.\<close>

definition content_length_of :: "(pystr \<rightharpoonup> pystr) \<Rightarrow> int option" where
  "content_length_of headers =
     (case headers ''Content-Length'' of None \<Rightarrow> Some 0 | Some v \<Rightarrow> py_int v)"

text \<open>
  The rest of \<open>read_message\<close> once the headers are read: the body is read, decoded and
  parsed, and \<open>usable\<close> stands for the line that prints the message, which raises on a
  message it cannot print.  Every exception ends in \<open>return None\<close>.
\<close>

definition read_body ::
  "json_codec \<Rightarrow> (json \<Rightarrow> bool) \<Rightarrow> (pystr \<rightharpoonup> pystr) \<Rightarrow> bytes \<Rightarrow> json option \<times> bytes" where
  "read_body J usable headers out1 =
     (case content_length_of headers of
        None \<Rightarrow> (None, out1)
      | Some n \<Rightarrow>
          (case buffered_read n out1 of
             Inl e \<Rightarrow> (None, out1)
           | Inr (raw, out2) \<Rightarrow>
               (case decode_utf8 raw of
                  Inl e \<Rightarrow> (None, out2)
                | Inr content \<Rightarrow>
                    (case loads J content of
                       None \<Rightarrow> (None, out2)
                     | Some msg \<Rightarrow> if usable msg then (Some msg, out2) else (None, out2)))))"

text \<open>\<open>msg['type']\<close> inside an f-string: the message must be a dict with that key.\<close>

definition has_type :: "json \<Rightarrow> bool" where
  "has_type msg = (case msg of JObj kv \<Rightarrow> map_of kv ''type'' \<noteq> None | _ \<Rightarrow> False)"


text \<open>
  \<open>read_message\<close> of test\_correct\_sequence.py.  \<open>ready\<close> is the answer of \<open>select\<close>
  (true as well on win32, where \<open>select\<close> is not called): without it the call returns
  \<open>None\<close> and reads nothing.  The end of the stream ends the header loop like a blank
  line does.
\<close>

definition read_message :: "json_codec \<Rightarrow> bool \<Rightarrow> bytes \<Rightarrow> json option \<times> bytes" where
  "read_message J ready out =
     (if \<not> ready then (None, out)
      else
        (case read_headers Map.empty out of
           (Inl e, out1) \<Rightarrow> (None, out1)
         | (Inr (headers, eof), out1) \<Rightarrow> read_body J has_type headers out1))"


section \<open>The DAPTester class of scripts/test\_dap\_standalone.py\<close>

text \<open>
  A key of the \<open>received_responses\<close> dict: what \<open>message.get('request_seq')\<close> gave.
  \<open>None\<close> (also for a JSON null), an int (a bool is the int 0 or 1 as a key) or a
  \<open>str\<close>; a list or a dict cannot be a key, and using one raises TypeError.
\<close>

datatype key = KNone | KInt int | KStr pystr

fun to_key :: "json option \<Rightarrow> error + key" where
  "to_key None = Inr KNone"
| "to_key (Some JNull) = Inr KNone"
| "to_key (Some (JBool b)) = Inr (KInt (if b then 1 else 0))"
| "to_key (Some (JInt i)) = Inr (KInt i)"
| "to_key (Some (JStr s)) = Inr (KStr s)"
| "to_key (Some (JArr xs)) = Inl TypeError"
| "to_key (Some (JObj kv)) = Inl TypeError"

text \<open>
  An entry of \<open>timing_log\<close>: its type and the values its description is formatted from
  (the command and the sequence number, or the event name).  The time stamp is left
  out: the list is in the order of the calls of \<open>log_timing\<close>.
\<close>

datatype log_entry =
  SPAWN
  | SEND_REQ "json option" "json option"
  | RECV_RESP "json option" "json option"
  | RECV_EVENT "json option"

record tester =
  process :: process
  seq :: int
  received_events :: "json list"
  received_responses :: "key \<rightharpoonup> json"
  running :: bool
  timing_log :: "log_entry list"

text \<open>\<open>DAPTester.__init__\<close> followed by \<open>start_adapter\<close>: the adapter is spawned with empty
  pipes and the reader thread is started.\<close>

definition start_adapter :: tester where
  "start_adapter =
     \<lparr>process = \<lparr>stdin = [], stdout = []\<rparr>, seq = 0, received_events = [],
      received_responses = Map.empty, running = True, timing_log = [SPAWN, SPAWN]\<rparr>"

text \<open>\<open>message.get(key, default)\<close>.\<close>

definition py_get_default :: "json \<Rightarrow> pystr \<Rightarrow> json option \<Rightarrow> error + json option" where
  "py_get_default message k d =
     (case message of
        JObj kv \<Rightarrow> Inr (case map_of kv k of None \<Rightarrow> d | Some v \<Rightarrow> Some v)
      | _ \<Rightarrow> Inl AttributeError)"

text \<open>
  \<open>DAPTester._send_message\<close>: the frame is built, the send is logged, the frame is
  written.  A message that is not a dict raises before anything is written.
\<close>

definition DAPTester_send_message :: "json_codec \<Rightarrow> tester \<Rightarrow> json \<Rightarrow> error + tester" where
  "DAPTester_send_message J self message =
     (case py_get message ''type'' of
        Inl e \<Rightarrow> Inl e
      | Inr ty \<Rightarrow>
          (case py_get_default message ''command'' ty of
             Inl e \<Rightarrow> Inl e
           | Inr command \<Rightarrow>
               (case py_get message ''seq'' of
                  Inl e \<Rightarrow> Inl e
                | Inr sq \<Rightarrow>
                    Inr (self\<lparr>timing_log := timing_log self @ [SEND_REQ command sq],
                              process := (process self)
                                \<lparr>stdin := stdin (process self) @ frame J message\<rparr>\<rparr>))))"

definition initialize_request :: "int \<Rightarrow> json" where
  "initialize_request n =
     JObj [(''type'', JStr ''request''), (''seq'', JInt n), (''command'', JStr ''initialize''),
           (''arguments'',
            JObj [(''clientID'', JStr ''dap-standalone-test''),
                  (''clientName'', JStr ''DAP Standalone Tester''),
                  (''adapterID'', JStr ''debugpy''),
                  (''pathFormat'', JStr ''path''),
                  (''linesStartAt1'', JBool True),
                  (''columnsStartAt1'', JBool True),
                  (''supportsVariableType'', JBool True),
                  (''supportsVariablePaging'', JBool True),
                  (''supportsRunInTerminalRequest'', JBool False),
                  (''locale'', JStr ''en-US'')])]"

definition send_initialize :: "json_codec \<Rightarrow> tester \<Rightarrow> error + int \<times> tester" where
  "send_initialize J self =
     (case DAPTester_send_message J (self\<lparr>seq := seq self + 1\<rparr>) (initialize_request (seq self + 1)) of
        Inl e \<Rightarrow> Inl e
      | Inr self' \<Rightarrow> Inr (seq self', self'))"



definition configuration_done_request :: "int \<Rightarrow> json" where
  "configuration_done_request n =
     JObj [(''type'', JStr ''request''), (''seq'', JInt n), (''command'', JStr ''configurationDone'')]"

definition send_configuration_done :: "json_codec \<Rightarrow> tester \<Rightarrow> error + int \<times> tester" where
  "send_configuration_done J self =
     (case DAPTester_send_message J (self\<lparr>seq := seq self + 1\<rparr>)
             (configuration_done_request (seq self + 1)) of
        Inl e \<Rightarrow> Inl e
      | Inr self' \<Rightarrow> Inr (seq self', self'))"

text \<open>
  One pass through the body of the \<open>while self.running\<close> loop of
  \<open>DAPTester._read_messages\<close>.  \<open>Continue\<close>: the pass ended normally and the loop tests
  its condition again; \<open>Break\<close>: an exception was caught and the loop left.
\<close>

datatype flow = Continue tester | Break tester

definition on_response :: "tester \<Rightarrow> json \<Rightarrow> flow" where
  "on_response self message =
     (case py_get message ''request_seq'' of
        Inl e \<Rightarrow> Break self
      | Inr sq \<Rightarrow>
          (case py_get message ''command'' of
             Inl e \<Rightarrow> Break self
           | Inr command \<Rightarrow>
               (case to_key sq of
                  Inl e \<Rightarrow> Break self
                | Inr k \<Rightarrow>
                    Continue
                      (self\<lparr>received_responses := (received_responses self)(k \<mapsto> message),
                            timing_log := timing_log self @ [RECV_RESP command sq]\<rparr>))))"

definition on_event :: "json_codec \<Rightarrow> tester \<Rightarrow> json \<Rightarrow> flow" where
  "on_event J self message =
     (case py_get message ''event'' of
        Inl e \<Rightarrow> Break self
      | Inr event_name \<Rightarrow>
          (let self1 = self\<lparr>received_events := received_events self @ [message],
                            timing_log := timing_log self @ [RECV_EVENT event_name]\<rparr>
           in if event_name = Some (JStr ''initialized'') then
                (case send_configuration_done J self1 of
                   Inl e \<Rightarrow> Break self1
                 | Inr (n, self2) \<Rightarrow> Continue self2)
              else Continue self1))"

definition read_messages_body :: "json_codec \<Rightarrow> tester \<Rightarrow> flow" where
  "read_messages_body J self =
     (case DAPTester_read_message J (stdout (process self)) of
        (Inl e, out) \<Rightarrow> Break (self\<lparr>process := (process self)\<lparr>stdout := out\<rparr>\<rparr>)
      | (Inr None, out) \<Rightarrow> Continue (self\<lparr>process := (process self)\<lparr>stdout := out\<rparr>\<rparr>)
      | (Inr (Some message), out) \<Rightarrow>
          (let self1 = self\<lparr>process := (process self)\<lparr>stdout := out\<rparr>\<rparr> in
           if \<not> truthy message then Continue self1
           else
             (case py_get message ''type'' of
                Inl e \<Rightarrow> Break self1
              | Inr msg_type \<Rightarrow>
                  if msg_type = Some (JStr ''response'') then on_response self1 message
                  else if msg_type = Some (JStr ''event'') then on_event J self1 message
                  else Continue self1)))"

text \<open>
  The loop itself.  It leaves when \<open>running\<close> is false or an exception was caught; at the
  end of the stream \<open>_read_message\<close> returns \<open>None\<close> again and again and the loop never
  leaves: the result is then \<open>None\<close>.
\<close>

partial_function (option) DAPTester_read_messages :: "json_codec \<Rightarrow> tester \<Rightarrow> tester option" where
  "DAPTester_read_messages J self =
     (if running self then
        (case read_messages_body J self of
           Continue self' \<Rightarrow> DAPTester_read_messages J self'
         | Break self' \<Rightarrow> Some self')
      else Some self)"

text \<open>
  \<open>wait_for_response\<close>.  The loop tests the deadline, looks the sequence number up and
  sleeps; the reader thread fills \<open>received_responses\<close> meanwhile.  \<open>polls\<close> lists the
  tester as each lookup made before the deadline finds it; when the list is used up the
  deadline has passed.  The function only reads the tester.
\<close>

fun wait_for_response :: "int \<Rightarrow> tester list \<Rightarrow> error + json" where
  "wait_for_response n [] = Inl TimeoutError"
| "wait_for_response n (self # polls) =
     (case received_responses self (KInt n) of
        Some response \<Rightarrow> Inr response
      | None \<Rightarrow> wait_for_response n polls)"

section \<open>The main function of scripts/test\_dap\_standalone.py\<close>






section \<open>The script test\_correct\_sequence.py\<close>















section \<open>A JSON codec for running the model on concrete messages\<close>

text \<open>
  The format \<open>json.dumps\<close> writes with its default arguments (\<open>", "\<close> and \<open>": "\<close> as
  separators; every character outside the printable ASCII range escaped) and a reader
  of JSON texts without floats.  The theorems below hold for every codec; this one
  serves to run the model on concrete frames.
\<close>

definition DQ :: char where "DQ = CHR 0x22"
definition BS :: char where "BS = CHR 0x5C"

definition hex_digit :: "nat \<Rightarrow> char" where
  "hex_digit d = ''0123456789abcdef'' ! d"

definition hex4 :: "nat \<Rightarrow> pystr" where
  "hex4 n = [hex_digit (n div 4096 mod 16), hex_digit (n div 256 mod 16),
             hex_digit (n div 16 mod 16), hex_digit (n mod 16)]"

fun code_points :: "bytes \<Rightarrow> nat list" where
  "code_points [] = []"
| "code_points (b # bs) =
     (let n = (of_char b :: nat) in
      if n < 0x80 then n # code_points bs
      else if n < 0xE0 then
        (case bs of
           c1 # r \<Rightarrow> (n mod 32 * 64 + of_char c1 mod 64) # code_points r
         | _ \<Rightarrow> [])
      else if n < 0xF0 then
        (case bs of
           c1 # c2 # r \<Rightarrow>
             (n mod 16 * 4096 + of_char c1 mod 64 * 64 + of_char c2 mod 64) # code_points r
         | _ \<Rightarrow> [])
      else
        (case bs of
           c1 # c2 # c3 # r \<Rightarrow>
             (n mod 8 * 262144 + of_char c1 mod 64 * 4096 + of_char c2 mod 64 * 64
                + of_char c3 mod 64) # code_points r
         | _ \<Rightarrow> []))"

definition escape :: "nat \<Rightarrow> pystr" where
  "escape c =
     (if c = 0x22 then [BS, DQ]
      else if c = 0x5C then [BS, BS]
      else if c = 0x0A then [BS, CHR ''n'']
      else if c = 0x0D then [BS, CHR ''r'']
      else if c = 0x09 then [BS, CHR ''t'']
      else if c = 0x08 then [BS, CHR ''b'']
      else if c = 0x0C then [BS, CHR ''f'']
      else if 0x20 \<le> c \<and> c \<le> 0x7E then [char_of c]
      else if c < 0x10000 then [BS, CHR ''u''] @ hex4 c
      else [BS, CHR ''u''] @ hex4 (0xD800 + (c - 0x10000) div 1024)
           @ [BS, CHR ''u''] @ hex4 (0xDC00 + (c - 0x10000) mod 1024))"

definition quote :: "pystr \<Rightarrow> pystr" where
  "quote s = DQ # concat (map escape (code_points s)) @ [DQ]"

fun join :: "pystr \<Rightarrow> pystr list \<Rightarrow> pystr" where
  "join sep [] = []"
| "join sep [x] = x"
| "join sep (x # y # ys) = x @ sep @ join sep (y # ys)"

fun json_dumps :: "json \<Rightarrow> pystr" where
  "json_dumps JNull = ''null''"
| "json_dumps (JBool b) = (if b then ''true'' else ''false'')"
| "json_dumps (JInt i) = str i"
| "json_dumps (JStr s) = quote s"
| "json_dumps (JArr xs) = ''['' @ join '', '' (map json_dumps xs) @ '']''"
| "json_dumps (JObj kv) =
     ''{'' @ join '', '' (map (\<lambda>(k, v). quote k @ '': '' @ json_dumps v) kv) @ ''}''"


definition is_ws :: "char \<Rightarrow> bool" where
  "is_ws c = (c = CHR 0x20 \<or> c = CHR 0x09 \<or> c = LF \<or> c = CR)"

definition skip_ws :: "pystr \<Rightarrow> pystr" where
  "skip_ws s = dropWhile is_ws s"

definition hex_val :: "char \<Rightarrow> nat option" where
  "hex_val c =
     (let n = (of_char c :: nat) in
      if 48 \<le> n \<and> n \<le> 57 then Some (n - 48)
      else if 97 \<le> n \<and> n \<le> 102 then Some (n - 87)
      else if 65 \<le> n \<and> n \<le> 70 then Some (n - 55)
      else None)"

definition parse_hex4 :: "pystr \<Rightarrow> nat option" where
  "parse_hex4 s =
     (case map hex_val (take 4 s) of
        [Some a, Some b, Some c, Some d] \<Rightarrow> Some (a * 4096 + b * 256 + c * 16 + d)
      | _ \<Rightarrow> None)"

definition utf8_of :: "nat \<Rightarrow> bytes" where
  "utf8_of c =
     (if c < 0x80 then [char_of c]
      else if c < 0x800 then [char_of (0xC0 + c div 64), char_of (0x80 + c mod 64)]
      else if c < 0x10000 then
        [char_of (0xE0 + c div 4096), char_of (0x80 + c div 64 mod 64), char_of (0x80 + c mod 64)]
      else
        [char_of (0xF0 + c div 262144), char_of (0x80 + c div 4096 mod 64),
         char_of (0x80 + c div 64 mod 64), char_of (0x80 + c mod 64)])"

definition unescape :: "char \<Rightarrow> char option" where
  "unescape e =
     (if e = DQ then Some DQ
      else if e = BS then Some BS
      else if e = CHR ''/'' then Some (CHR ''/'')
      else if e = CHR ''b'' then Some (CHR 0x08)
      else if e = CHR ''f'' then Some (CHR 0x0C)
      else if e = CHR ''n'' then Some LF
      else if e = CHR ''r'' then Some CR
      else if e = CHR ''t'' then Some (CHR 0x09)
      else None)"

text \<open>The text of a string after its opening quote, and what follows the closing quote.\<close>

fun scan_string :: "pystr \<Rightarrow> (pystr \<times> pystr) option" where
  "scan_string [] = None"
| "scan_string (c # cs) =
     (if c = DQ then Some ([], cs)
      else if c = BS then
        (case cs of
           [] \<Rightarrow> None
         | e # r \<Rightarrow>
             if e = CHR ''u'' then
               (case parse_hex4 r of
                  None \<Rightarrow> None
                | Some hi \<Rightarrow>
                    (case (if 0xD800 \<le> hi \<and> hi \<le> 0xDBFF \<and> take 2 (drop 4 r) = [BS, CHR ''u'']
                           then parse_hex4 (drop 6 r) else None) of
                       Some lo \<Rightarrow>
                         if 0xDC00 \<le> lo \<and> lo \<le> 0xDFFF then
                           map_option
                             (\<lambda>(s, rest). (utf8_of (0x10000 + (hi - 0xD800) * 1024 + (lo - 0xDC00)) @ s, rest))
                             (scan_string (drop 10 r))
                         else map_option (\<lambda>(s, rest). (utf8_of hi @ s, rest)) (scan_string (drop 4 r))
                     | None \<Rightarrow> map_option (\<lambda>(s, rest). (utf8_of hi @ s, rest)) (scan_string (drop 4 r))))
             else
               (case unescape e of
                  None \<Rightarrow> None
                | Some ch \<Rightarrow> map_option (\<lambda>(s, rest). (ch # s, rest)) (scan_string r)))
      else if (of_char c :: nat) < 0x20 then None
      else map_option (\<lambda>(s, rest). (c # s, rest)) (scan_string cs))"

text \<open>
  An integer literal: an optional minus sign, then 0 or digits that do not start with 0.
  A fraction or an exponent would make a float, which the model does not have.
\<close>

definition scan_int :: "pystr \<Rightarrow> (int \<times> pystr) option" where
  "scan_int s =
     (let neg = (s \<noteq> [] \<and> hd s = CHR ''-'');
          t = (if neg then tl s else s);
          ds = (if t \<noteq> [] \<and> hd t = CHR ''0'' then ''0'' else takeWhile is_digit t);
          rest = drop (length ds) t
      in if ds = [] \<or> (rest \<noteq> [] \<and> hd rest \<in> {CHR ''.'', CHR ''e'', CHR ''E''}) then None
         else map_option (\<lambda>n. (if neg then - int n else int n, rest)) (parse_digits 0 ds))"

fun scan_once :: "nat \<Rightarrow> pystr \<Rightarrow> (json \<times> pystr) option"
  and scan_array :: "nat \<Rightarrow> pystr \<Rightarrow> (json list \<times> pystr) option"
  and scan_object :: "nat \<Rightarrow> pystr \<Rightarrow> ((pystr \<times> json) list \<times> pystr) option" where
  "scan_once 0 s = None"
| "scan_once (Suc fuel) s =
     (case s of
        [] \<Rightarrow> None
      | c # cs \<Rightarrow>
          if c = DQ then map_option (\<lambda>(t, rest). (JStr t, rest)) (scan_string cs)
          else if c = CHR ''{'' then
            (if skip_ws cs \<noteq> [] \<and> hd (skip_ws cs) = CHR ''}'' then Some (JObj [], tl (skip_ws cs))
             else map_option (\<lambda>(kv, rest). (JObj (foldl (\<lambda>d (k, v). AList.update k v d) [] kv), rest))
                    (scan_object fuel (skip_ws cs)))
          else if c = CHR ''['' then
            (if skip_ws cs \<noteq> [] \<and> hd (skip_ws cs) = CHR '']'' then Some (JArr [], tl (skip_ws cs))
             else map_option (\<lambda>(xs, rest). (JArr xs, rest)) (scan_array fuel (skip_ws cs)))
          else if startswith s ''null'' then Some (JNull, drop 4 s)
          else if startswith s ''true'' then Some (JBool True, drop 4 s)
          else if startswith s ''false'' then Some (JBool False, drop 5 s)
          else map_option (\<lambda>(i, rest). (JInt i, rest)) (scan_int s))"
| "scan_array 0 s = None"
| "scan_array (Suc fuel) s =
     (case scan_once fuel s of
        None \<Rightarrow> None
      | Some (x, rest) \<Rightarrow>
          (case skip_ws rest of
             [] \<Rightarrow> None
           | c # r \<Rightarrow>
               if c = CHR '']'' then Some ([x], r)
               else if c = CHR '','' then
                 map_option (\<lambda>(xs, rest'). (x # xs, rest')) (scan_array fuel (skip_ws r))
               else None))"
| "scan_object 0 s = None"
| "scan_object (Suc fuel) s =
     (case s of
        [] \<Rightarrow> None
      | q # s1 \<Rightarrow>
          if q \<noteq> DQ then None
          else
            (case scan_string s1 of
               None \<Rightarrow> None
             | Some (k, s2) \<Rightarrow>
                 (case skip_ws s2 of
                    [] \<Rightarrow> None
                  | colon # s3 \<Rightarrow>
                      if colon \<noteq> CHR '':'' then None
                      else
                        (case scan_once fuel (skip_ws s3) of
                           None \<Rightarrow> None
                         | Some (v, s4) \<Rightarrow>
                             (case skip_ws s4 of
                                [] \<Rightarrow> None
                              | c # r \<Rightarrow>
                                  if c = CHR ''}'' then Some ([(k, v)], r)
                                  else if c = CHR '','' then
                                    map_option (\<lambda>(kv, rest'). ((k, v) # kv, rest'))
                                      (scan_object fuel (skip_ws r))
                                  else None)))))"

definition json_loads :: "pystr \<Rightarrow> json option" where
  "json_loads s =
     (case scan_once (2 * length s + 2) (skip_ws s) of
        None \<Rightarrow> None
      | Some (v, rest) \<Rightarrow> if skip_ws rest = [] then Some v else None)"

definition py_json :: json_codec where
  "py_json = \<lparr>dumps = json_dumps, loads = json_loads\<rparr>"


section \<open>Decimal numerals, stripping and splitting\<close>

lemma digit_char_props:
  assumes "d < 10"
  shows "is_digit (digit_char d)" and "digit_val (digit_char d) = d"
    and "digit_char d \<noteq> CR" and "digit_char d \<noteq> LF" and "digit_char d \<noteq> CHR '':''"
    and "is_ascii (digit_char d)"
proof -
  from assms consider "d = 0" | "d = 1" | "d = 2" | "d = 3" | "d = 4" | "d = 5" | "d = 6"
    | "d = 7" | "d = 8" | "d = 9" by (auto simp: less_Suc_eq numeral_eq_Suc)
  then have "is_digit (digit_char d) \<and> digit_val (digit_char d) = d \<and> digit_char d \<noteq> CR
      \<and> digit_char d \<noteq> LF \<and> digit_char d \<noteq> CHR '':'' \<and> is_ascii (digit_char d)"
    by cases (simp_all add: digit_char_def is_digit_def digit_val_def CR_def LF_def is_ascii_def)
  then show "is_digit (digit_char d)" and "digit_val (digit_char d) = d"
    and "digit_char d \<noteq> CR" and "digit_char d \<noteq> LF" and "digit_char d \<noteq> CHR '':''"
    and "is_ascii (digit_char d)" by simp_all
qed

lemma str_nat_digits: "list_all is_digit (str_nat n)"
  by (induction n rule: str_nat.induct) (subst str_nat.simps, simp add: digit_char_props)

lemma str_nat_nonempty: "str_nat n \<noteq> []"
  by (subst str_nat.simps) simp

lemma parse_digits_str_nat:
  "parse_digits acc (str_nat n @ ys) = parse_digits (acc * 10 ^ length (str_nat n) + n) ys"
proof (induction n arbitrary: acc ys rule: str_nat.induct)
  case (1 n)
  show ?case
  proof (cases "n < 10")
    case True
    then show ?thesis by (subst (1 2) str_nat.simps) (simp add: digit_char_props mult.commute)
  next
    case False
    have d: "n mod 10 < 10" by simp
    have "parse_digits acc (str_nat n @ ys)
        = parse_digits acc (str_nat (n div 10) @ digit_char (n mod 10) # ys)"
      using False by (subst str_nat.simps) simp
    also have "\<dots> = parse_digits (acc * 10 ^ length (str_nat (n div 10)) + n div 10)
                       (digit_char (n mod 10) # ys)"
      using False by (rule "1.IH")
    also have "\<dots> = parse_digits (10 * (acc * 10 ^ length (str_nat (n div 10)) + n div 10) + n mod 10) ys"
      using d by (simp add: digit_char_props)
    also have "10 * (acc * 10 ^ length (str_nat (n div 10)) + n div 10) + n mod 10
        = acc * 10 ^ length (str_nat n) + n"
      using False by (subst (2) str_nat.simps) (simp add: algebra_simps)
    finally show ?thesis .
  qed
qed

lemma parse_unsigned_str_nat: "parse_unsigned (str_nat n) = Some n"
proof -
  obtain c cs where cs: "str_nat n = c # cs" using str_nat_nonempty by (cases "str_nat n") auto
  moreover have "is_digit c" using str_nat_digits [of n] cs by simp
  moreover have "parse_digits 0 (str_nat n) = Some n"
    using parse_digits_str_nat [of 0 n "[]"] by simp
  ultimately show ?thesis by (simp add: parse_unsigned_def)
qed

subsection \<open>ASCII text\<close>

lemma utf8_valid_ascii: "list_all is_ascii s \<Longrightarrow> utf8_valid s"
  by (induction s) (simp_all add: is_ascii_def)

lemma decode_utf8_ascii: "list_all is_ascii s \<Longrightarrow> decode_utf8 s = Inr s"
  by (simp add: decode_utf8_def utf8_valid_ascii)

lemma py_len_ascii: "list_all is_ascii s \<Longrightarrow> py_len s = length s"
  by (induction s) (simp_all add: py_len_def is_ascii_def cont_def)

lemma str_nat_ascii: "list_all is_ascii (str_nat n)"
  by (induction n rule: str_nat.induct) (subst str_nat.simps, simp add: digit_char_props)

lemma digits_no_special:
  "list_all is_digit s \<Longrightarrow> CR \<notin> set s \<and> LF \<notin> set s \<and> CHR '':'' \<notin> set s"
  by (induction s) (auto simp: is_digit_def CR_def LF_def)

lemma str_nat_no_CR: "CR \<notin> set (str_nat n)"
  using digits_no_special [OF str_nat_digits] by simp


lemma str_nat_no_colon: "CHR '':'' \<notin> set (str_nat n)"
  using digits_no_special [OF str_nat_digits] by simp

subsection \<open>Stripping\<close>

lemma whitespace_ends:
  "list_all (\<lambda>w. w \<noteq> [] \<and> \<not> is_digit (hd w) \<and> \<not> is_digit (last w)) whitespace"
  by (simp add: whitespace_def is_digit_def)

lemma ws_head_digit: "is_digit c \<Longrightarrow> ws_head (c # s) = 0"
proof -
  assume c: "is_digit c"
  have "\<not> startswith (c # s) w" if "w \<in> set whitespace" for w
  proof
    assume sw: "startswith (c # s) w"
    from that whitespace_ends have w: "w \<noteq> []" "\<not> is_digit (hd w)" by (auto simp: list_all_iff)
    then obtain a r where "w = a # r" by (cases w) auto
    with sw have "a = c" by (simp add: startswith_def)
    with w \<open>w = a # r\<close> c show False by simp
  qed
  then have "find (\<lambda>w. startswith (c # s) w) whitespace = None" by (simp add: find_None_iff)
  then show ?thesis by (simp add: ws_head_def)
qed

lemma endswith_last: "endswith s w \<Longrightarrow> w \<noteq> [] \<Longrightarrow> last w = last s"
proof -
  assume e: "endswith s w" and w: "w \<noteq> []"
  then have "drop (length s - length w) s = w" by (simp add: endswith_def)
  with w show ?thesis by (metis last_drop drop_eq_Nil not_le)
qed

lemma ws_last_digit: "s \<noteq> [] \<Longrightarrow> is_digit (last s) \<Longrightarrow> ws_last s = 0"
proof -
  assume s: "s \<noteq> []" and c: "is_digit (last s)"
  have "\<not> endswith s w" if "w \<in> set whitespace" for w
  proof
    assume sw: "endswith s w"
    from that whitespace_ends have w: "w \<noteq> []" "\<not> is_digit (last w)" by (auto simp: list_all_iff)
    with sw endswith_last c show False by metis
  qed
  then have "find (\<lambda>w. endswith s w) whitespace = None" by (simp add: find_None_iff)
  then show ?thesis by (simp add: ws_last_def)
qed

lemma last_str_nat_digit: "is_digit (last (str_nat n))"
  using str_nat_digits [of n] str_nat_nonempty [of n] by (simp add: list_all_iff)

lemma hd_str_nat_digit: "is_digit (hd (str_nat n))"
  using str_nat_digits [of n] str_nat_nonempty [of n] by (cases "str_nat n") simp_all

lemma lstrip_str_nat: "lstrip (str_nat n) = str_nat n"
proof -
  obtain c cs where cs: "str_nat n = c # cs" using str_nat_nonempty by (cases "str_nat n") auto
  with hd_str_nat_digit [of n] have "ws_head (str_nat n) = 0" by (simp add: ws_head_digit)
  then show ?thesis by (subst lstrip.simps) simp
qed

lemma rstrip_digits: "s \<noteq> [] \<Longrightarrow> is_digit (last s) \<Longrightarrow> rstrip s = s"
  by (subst rstrip.simps) (simp add: ws_last_digit)

lemma py_strip_str_nat: "py_strip (str_nat n) = str_nat n"
  by (simp add: py_strip_def lstrip_str_nat rstrip_digits str_nat_nonempty last_str_nat_digit)

lemma lstrip_space: "lstrip (CHR '' '' # s) = lstrip s"
proof -
  have "ws_head (CHR '' '' # s) = 1" by (simp add: ws_head_def whitespace_def startswith_def)
  then show ?thesis by (subst lstrip.simps) simp
qed




lemma py_int_str_nat: "py_int (str_nat n) = Some (int n)"
proof -
  obtain c cs where cs: "str_nat n = c # cs" using str_nat_nonempty by (cases "str_nat n") auto
  with hd_str_nat_digit [of n] have "is_digit c" by simp
  then have "c \<noteq> CHR ''-''" "c \<noteq> CHR ''+''" by (auto simp: is_digit_def)
  moreover have "py_strip (str_nat n) = c # cs" using cs py_strip_str_nat [of n] by simp
  moreover have "parse_unsigned (c # cs) = Some n" using cs parse_unsigned_str_nat [of n] by simp
  ultimately show ?thesis by (simp add: py_int_def)
qed

subsection \<open>Splitting\<close>

lemma split_from_no_sep:
  "sep \<noteq> [] \<Longrightarrow> hd sep \<notin> set xs \<Longrightarrow> split_from sep cur xs = [cur @ xs]"
proof (induction xs arbitrary: cur)
  case Nil
  then show ?case by simp
next
  case (Cons x xs)
  then obtain a r where sep: "sep = a # r" by (cases sep) auto
  with Cons.prems have "\<not> startswith (x # xs) sep" by (auto simp: startswith_def)
  with Cons show ?case by simp
qed

lemma split_from_at_sep:
  "sep \<noteq> [] \<Longrightarrow> hd sep \<notin> set xs \<Longrightarrow>
   split_from sep cur (xs @ sep @ ys) = (cur @ xs) # split_from sep [] ys"
proof (induction xs arbitrary: cur)
  case Nil
  then obtain a r where sep: "sep = a # r" by (cases sep) auto
  then show ?case by (simp add: startswith_def)
next
  case (Cons x xs)
  then obtain a r where sep: "sep = a # r" by (cases sep) auto
  with Cons.prems have "\<not> startswith (x # xs @ sep @ ys) sep" by (auto simp: startswith_def)
  with Cons show ?case by simp
qed


text \<open>A process freshly spawned, for running the model.\<close>

definition sample_process :: process where
  "sample_process = \<lparr>stdin = [], stdout = []\<rparr>"

text \<open>The adapter writes bytes to its standard output: they queue behind what is unread.\<close>

definition adapter_writes :: "tester \<Rightarrow> bytes \<Rightarrow> tester" where
  "adapter_writes self b = self\<lparr>process := (process self)\<lparr>stdout := stdout (process self) @ b\<rparr>\<rparr>"

text \<open>Messages an adapter sends, for running the model.\<close>

definition initialized_event :: json where
  "initialized_event = JObj [(''type'', JStr ''event''), (''event'', JStr ''initialized'')]"

definition response :: "int \<Rightarrow> pystr \<Rightarrow> bool \<Rightarrow> json" where
  "response n command ok =
     JObj [(''type'', JStr ''response''), (''request_seq'', JInt n), (''command'', JStr command),
           (''success'', JBool ok)]"

text \<open>The tester after \<open>start_adapter\<close> and \<open>send_initialize\<close>, for running the model.\<close>

definition initialize_sent :: tester where
  "initialize_sent =
     start_adapter
       \<lparr>seq := 1,
        timing_log := [SPAWN, SPAWN, SEND_REQ (Some (JStr ''initialize'')) (Some (JInt 1))],
        process := \<lparr>stdin = frame py_json (initialize_request 1), stdout = []\<rparr>\<rparr>"



section \<open>A frame written is the frame read\<close>

subsection \<open>Reading a header\<close>

lemma endswith_needs_CR: "endswith s (CRLF @ CRLF) \<Longrightarrow> CR \<in> set s"
proof -
  assume "endswith s (CRLF @ CRLF)"
  then have "drop (length s - length (CRLF @ CRLF)) s = CRLF @ CRLF" by (simp add: endswith_def)
  then have "CR \<in> set (drop (length s - length (CRLF @ CRLF)) s)" by (simp add: CRLF_def)
  then show ?thesis by (rule in_set_dropD)
qed

lemma endswith_full: "endswith (acc @ CRLF @ CRLF) (CRLF @ CRLF)"
  by (simp add: endswith_def CRLF_def)

lemma read_header_terminator:
  assumes "CR \<notin> set acc"
  shows "read_header acc (CRLF @ CRLF @ rest) = Some (acc @ CRLF @ CRLF, rest)"
proof -
  have 1: "\<not> endswith (acc @ [CR]) (CRLF @ CRLF)"
    by (auto simp: endswith_def CRLF_def CR_def LF_def)
  have 2: "\<not> endswith (acc @ [CR, LF]) (CRLF @ CRLF)"
  proof
    assume "endswith (acc @ [CR, LF]) (CRLF @ CRLF)"
    then have "drop (length acc - Suc (Suc 0)) acc = [CR, LF]"
      by (auto simp: endswith_def CRLF_def)
    then have "CR \<in> set (drop (length acc - Suc (Suc 0)) acc)" by simp
    then have "CR \<in> set acc" by (rule in_set_dropD)
    with assms show False by simp
  qed
  have 3: "\<not> endswith (acc @ [CR, LF, CR]) (CRLF @ CRLF)"
    by (auto simp: endswith_def CRLF_def CR_def LF_def)
  have 4: "endswith (acc @ [CR, LF, CR, LF]) (CRLF @ CRLF)"
    using endswith_full [of acc] by (simp add: CRLF_def)
  show ?thesis using 1 2 3 4 by (simp add: CRLF_def)
qed

lemma read_header_line:
  "CR \<notin> set acc \<Longrightarrow> CR \<notin> set xs \<Longrightarrow>
   read_header acc (xs @ CRLF @ CRLF @ rest) = Some (acc @ xs @ CRLF @ CRLF, rest)"
proof (induction xs arbitrary: acc)
  case Nil
  then show ?case by (simp add: read_header_terminator)
next
  case (Cons x xs)
  then have "CR \<notin> set (acc @ [x])" by auto
  moreover from this have "\<not> endswith (acc @ [x]) (CRLF @ CRLF)"
    using endswith_needs_CR by blast
  ultimately show ?case using Cons by simp
qed


subsection \<open>The header of a frame read back\<close>

lemma header_line_no_CR: "CR \<notin> set (header_line n)"
  using str_nat_no_CR [of n] by (simp add: header_line_def CR_def)


lemma header_line_ascii: "list_all is_ascii (header_line n)"
  using str_nat_ascii [of n] by (simp add: header_line_def is_ascii_def)

lemma CRLF_ascii: "list_all is_ascii CRLF"
  by (simp add: CRLF_def CR_def LF_def is_ascii_def)

lemma split_header: "py_split (header_line n @ CRLF @ CRLF) CRLF = [header_line n, [], []]"
proof -
  have c: "CRLF \<noteq> []" "hd CRLF \<notin> set (header_line n)" "hd CRLF \<notin> set []"
    using header_line_no_CR [of n] by (simp_all add: CRLF_def)
  have "split_from CRLF [] (header_line n @ CRLF @ CRLF)
      = ([] @ header_line n) # split_from CRLF [] CRLF"
    using split_from_at_sep [OF c(1) c(2), of "[]" CRLF] .
  moreover have "split_from CRLF [] CRLF = [[], []]"
    using split_from_at_sep [OF c(1) c(3), of "[]" "[]"] by simp
  ultimately show ?thesis by (simp add: py_split_def)
qed

lemma split_colon_header: "py_split (header_line n) '':'' = [''Content-Length'', CHR '' '' # str_nat n]"
proof -
  have "split_from '':'' [] (''Content-Length'' @ '':'' @ CHR '' '' # str_nat n)
      = ([] @ ''Content-Length'') # split_from '':'' [] (CHR '' '' # str_nat n)"
    by (rule split_from_at_sep) simp_all
  moreover have "split_from '':'' [] (CHR '' '' # str_nat n) = [[] @ CHR '' '' # str_nat n]"
    using str_nat_no_colon [of n] by (intro split_from_no_sep) simp_all
  ultimately show ?thesis by (simp add: py_split_def header_line_def)
qed

lemma py_strip_space_str_nat: "py_strip (CHR '' '' # str_nat n) = str_nat n"
  using py_strip_str_nat [of n] by (simp add: py_strip_def lstrip_space)

lemma find_content_length_header:
  "find_content_length (header_line n # lines) = Inr (int n)"
proof -
  have "startswith (header_line n) ''Content-Length:''"
    by (simp add: startswith_def header_line_def)
  then show ?thesis
    by (simp add: split_colon_header py_strip_space_str_nat py_int_str_nat)
qed

lemma read_frame:
  assumes "loads J (dumps J m) = Some m" and "list_all is_ascii (dumps J m)"
  shows "DAPTester_read_message J (frame J m @ rest) = (Inr (Some m), rest)"
proof -
  define body where "body = dumps J m"
  define n where "n = length body"
  have f: "frame J m @ rest = header_line n @ CRLF @ CRLF @ (body @ rest)"
    by (simp add: frame_def encode_utf8_def body_def n_def header_line_def Let_def)
  have h: "read_header [] (header_line n @ CRLF @ CRLF @ (body @ rest))
      = Some ([] @ header_line n @ CRLF @ CRLF, body @ rest)"
    using header_line_no_CR [of n] by (intro read_header_line) simp_all
  have d: "decode_utf8 (header_line n @ CRLF @ CRLF) = Inr (header_line n @ CRLF @ CRLF)"
    using header_line_ascii [of n] CRLF_ascii by (intro decode_utf8_ascii) simp
  have r: "fileio_read (int n) (body @ rest) = (body, rest)"
    by (simp add: fileio_read_def n_def)
  have b: "decode_utf8 body = Inr body"
    using assms(2) by (simp add: body_def decode_utf8_ascii)
  have l: "loads J body = Some m"
    using assms(1) by (simp add: body_def)
  show ?thesis
    unfolding f DAPTester_read_message_def
    using h by (simp add: d split_header find_content_length_header r b l
        del: find_content_length.simps)
qed


subsection \<open>The header lines read back with readline\<close>









section \<open>Framing: the frame format and the round trip\<close>

lemma send_message_dict:
  "DAPTester_send_message J self (JObj kv) =
     Inr (self\<lparr>timing_log := timing_log self
                   @ [SEND_REQ (case map_of kv ''command'' of None \<Rightarrow> map_of kv ''type'' | Some v \<Rightarrow> Some v)
                        (map_of kv ''seq'')],
               process := (process self)\<lparr>stdin := stdin (process self) @ frame J (JObj kv)\<rparr>\<rparr>)"
  by (simp add: DAPTester_send_message_def py_get_def py_get_default_def)

text \<open>
  Claim C5.  Every message written is framed as the ASCII header line
  \<open>Content-Length: N\<close>, \<open>N\<close> in decimal and equal to the number of bytes of the UTF-8
  encoded serialised body, then CR LF CR LF, then exactly the \<open>N\<close> bytes of the body and
  nothing after them.  Both senders are covered: \<open>DAPTester._send_message\<close>, which
  counts the encoded bytes, and \<open>send_message\<close>, which counts the characters of the text;
  the two counts agree because \<open>json.dumps\<close> writes ASCII only, which is the hypothesis.
\<close>

theorem send_frame_format:
  assumes "list_all is_ascii (dumps J (JObj kv))"
  shows "let body = encode_utf8 (dumps J (JObj kv));
             N = length body;
             sent = ''Content-Length: '' @ str_nat N @ CRLF @ CRLF @ body
         in (\<exists>self'. DAPTester_send_message J self (JObj kv) = Inr self'
                \<and> stdin (process self') = stdin (process self) @ sent)
            \<and> send_message J proc (JObj kv) = (proc\<lparr>stdin := stdin proc @ sent\<rparr>, Inr ())
            \<and> py_int (str_nat N) = Some (int N)
            \<and> list_all is_ascii (''Content-Length: '' @ str_nat N @ CRLF @ CRLF)
            \<and> drop (length sent - N) sent = body"
proof -
  define body where "body = encode_utf8 (dumps J (JObj kv))"
  define N where "N = length body"
  define sent where "sent = ''Content-Length: '' @ str_nat N @ CRLF @ CRLF @ body"
  have fr: "frame J (JObj kv) = sent"
    by (simp add: frame_def sent_def N_def body_def Let_def encode_utf8_def)
  have 1: "\<exists>self'. DAPTester_send_message J self (JObj kv) = Inr self'
      \<and> stdin (process self') = stdin (process self) @ sent"
    by (simp add: send_message_dict fr)
  have len: "py_len (dumps J (JObj kv)) = N"
    using assms by (simp add: py_len_ascii N_def body_def encode_utf8_def)
  have 2: "send_message J proc (JObj kv) = (proc\<lparr>stdin := stdin proc @ sent\<rparr>, Inr ())"
    by (simp add: send_message_def len sent_def body_def encode_utf8_def Let_def)
  have 3: "py_int (str_nat N) = Some (int N)" by (rule py_int_str_nat)
  have 4: "list_all is_ascii (''Content-Length: '' @ str_nat N @ CRLF @ CRLF)"
    using header_line_ascii [of N] CRLF_ascii by (simp add: header_line_def)
  have 5: "drop (length sent - N) sent = body"
  proof -
    define pre where "pre = ''Content-Length: '' @ str_nat N @ CRLF @ CRLF"
    have "sent = pre @ body" by (simp add: sent_def pre_def)
    then show ?thesis by (simp add: N_def)
  qed
  from 1 2 3 4 5 show ?thesis
    unfolding body_def [symmetric] Let_def N_def [symmetric] sent_def [symmetric] by simp
qed

theorem send_frame_format_witness:
  "list_all is_ascii (dumps py_json (JObj [(''seq'', JInt 3), (''command'', JStr ''configurationDone'')]))
   \<and> (let body = encode_utf8 (dumps py_json (JObj [(''seq'', JInt 3), (''command'', JStr ''configurationDone'')]));
           N = length body;
           sent = ''Content-Length: '' @ str_nat N @ CRLF @ CRLF @ body
       in (\<exists>self'. DAPTester_send_message py_json start_adapter
                     (JObj [(''seq'', JInt 3), (''command'', JStr ''configurationDone'')]) = Inr self'
              \<and> stdin (process self') = stdin (process start_adapter) @ sent)
          \<and> send_message py_json sample_process
                (JObj [(''seq'', JInt 3), (''command'', JStr ''configurationDone'')])
              = (sample_process\<lparr>stdin := stdin sample_process @ sent\<rparr>, Inr ())
          \<and> py_int (str_nat N) = Some (int N)
          \<and> list_all is_ascii (''Content-Length: '' @ str_nat N @ CRLF @ CRLF)
          \<and> drop (length sent - N) sent = body)"
proof -
  have a: "list_all is_ascii
      (dumps py_json (JObj [(''seq'', JInt 3), (''command'', JStr ''configurationDone'')]))"
    by code_simp
  from a send_frame_format [OF a, of start_adapter sample_process] show ?thesis by blast
qed

lemma frame_example:
  "frame py_json (configuration_done_request 3)
     = ''Content-Length: 61'' @ CRLF @ CRLF
       @ ''{\"type\": \"request\", \"seq\": 3, \"command\": \"configurationDone\"}''"
  by code_simp







section \<open>The reader loop of DAPTester\<close>

lemma send_configuration_done_eq:
  "send_configuration_done J self =
     Inr (seq self + 1,
          self\<lparr>seq := seq self + 1,
               timing_log := timing_log self
                 @ [SEND_REQ (Some (JStr ''configurationDone'')) (Some (JInt (seq self + 1)))],
               process := (process self)
                 \<lparr>stdin := stdin (process self) @ frame J (configuration_done_request (seq self + 1))\<rparr>\<rparr>)"
  by (simp add: send_configuration_done_def configuration_done_request_def send_message_dict)

lemma body_response:
  assumes "DAPTester_read_message J (stdout (process self)) = (Inr (Some (JObj kv)), rest)"
    and "map_of kv ''type'' = Some (JStr ''response'')"
    and "to_key (map_of kv ''request_seq'') = Inr k"
  shows "read_messages_body J self =
     Continue (self\<lparr>process := (process self)\<lparr>stdout := rest\<rparr>,
                    received_responses := (received_responses self)(k \<mapsto> JObj kv),
                    timing_log := timing_log self
                      @ [RECV_RESP (map_of kv ''command'') (map_of kv ''request_seq'')]\<rparr>)"
proof -
  from assms(2) have "kv \<noteq> []" by auto
  then show ?thesis
    using assms by (simp add: read_messages_body_def on_response_def py_get_def)
qed

lemma body_event:
  assumes "DAPTester_read_message J (stdout (process self)) = (Inr (Some (JObj kv)), rest)"
    and "map_of kv ''type'' = Some (JStr ''event'')"
  shows "read_messages_body J self =
     (if map_of kv ''event'' = Some (JStr ''initialized'') then
        Continue (self\<lparr>process := \<lparr>stdin = stdin (process self)
                                  @ frame J (configuration_done_request (seq self + 1)),
                                stdout = rest\<rparr>,
                      seq := seq self + 1,
                      received_events := received_events self @ [JObj kv],
                      timing_log := timing_log self
                        @ [RECV_EVENT (map_of kv ''event''),
                           SEND_REQ (Some (JStr ''configurationDone'')) (Some (JInt (seq self + 1)))]\<rparr>)
      else
        Continue (self\<lparr>process := (process self)\<lparr>stdout := rest\<rparr>,
                      received_events := received_events self @ [JObj kv],
                      timing_log := timing_log self @ [RECV_EVENT (map_of kv ''event'')]\<rparr>))"
proof -
  from assms(2) have "kv \<noteq> []" by auto
  then show ?thesis
    using assms
    by (simp add: read_messages_body_def on_event_def py_get_def send_configuration_done_eq Let_def)
qed

text \<open>
  Claim C2.  When the frame the reader loop reads is an \<open>initialized\<close> event (the one
  event the loop has a handler for), the handler runs inside the same pass of the loop:
  the pass ends normally in a state in which the \<open>configurationDone\<close> request, with the
  next sequence number, is already written to the adapter's input, while the adapter's
  output still holds everything that followed the event's frame.  The loop goes on from
  that state, so the request is sent before any further frame is read.
\<close>

theorem handler_runs_before_next_read:
  assumes "running self"
    and "DAPTester_read_message J (stdout (process self)) = (Inr (Some (JObj kv)), rest)"
    and "map_of kv ''type'' = Some (JStr ''event'')"
    and "map_of kv ''event'' = Some (JStr ''initialized'')"
  shows "\<exists>self'. read_messages_body J self = Continue self'
           \<and> DAPTester_read_messages J self = DAPTester_read_messages J self'
           \<and> stdout (process self') = rest
           \<and> stdin (process self')
               = stdin (process self) @ frame J (configuration_done_request (seq self + 1))
           \<and> seq self' = seq self + 1
           \<and> received_events self' = received_events self @ [JObj kv]
           \<and> received_responses self' = received_responses self
           \<and> running self'
           \<and> timing_log self'
               = timing_log self
                 @ [RECV_EVENT (Some (JStr ''initialized'')),
                    SEND_REQ (Some (JStr ''configurationDone'')) (Some (JInt (seq self + 1)))]"
proof -
  define self' where "self' =
    self\<lparr>process := \<lparr>stdin = stdin (process self)
                          @ frame J (configuration_done_request (seq self + 1)),
                        stdout = rest\<rparr>,
          seq := seq self + 1,
          received_events := received_events self @ [JObj kv],
          timing_log := timing_log self
            @ [RECV_EVENT (map_of kv ''event''),
               SEND_REQ (Some (JStr ''configurationDone'')) (Some (JInt (seq self + 1)))]\<rparr>"
  have b: "read_messages_body J self = Continue self'"
    using body_event [OF assms(2,3)] assms(4) by (simp add: self'_def)
  have "DAPTester_read_messages J self = DAPTester_read_messages J self'"
    using assms(1) b by (subst DAPTester_read_messages.simps) simp
  with b show ?thesis
    using assms(1,4) by (intro exI [of _ self']) (simp add: self'_def)
qed


lemma py_json_samples:
  "loads py_json (dumps py_json initialized_event) = Some initialized_event"
  "list_all is_ascii (dumps py_json initialized_event)"
  "loads py_json (dumps py_json (response 7 ''launch'' True)) = Some (response 7 ''launch'' True)"
  "list_all is_ascii (dumps py_json (response 7 ''launch'' True))"
  "loads py_json (dumps py_json (response 1 ''initialize'' True)) = Some (response 1 ''initialize'' True)"
  "list_all is_ascii (dumps py_json (response 1 ''initialize'' True))"
  "loads py_json (dumps py_json (response 1 ''initialize'' False)) = Some (response 1 ''initialize'' False)"
  "list_all is_ascii (dumps py_json (response 1 ''initialize'' False))"
  by code_simp+

lemma read_sample_frames:
  "DAPTester_read_message py_json (frame py_json initialized_event @ rest)
     = (Inr (Some initialized_event), rest)"
  "DAPTester_read_message py_json (frame py_json (response 7 ''launch'' True) @ rest)
     = (Inr (Some (response 7 ''launch'' True)), rest)"
  "DAPTester_read_message py_json (frame py_json (response 1 ''initialize'' True) @ rest)
     = (Inr (Some (response 1 ''initialize'' True)), rest)"
  "DAPTester_read_message py_json (frame py_json (response 1 ''initialize'' False) @ rest)
     = (Inr (Some (response 1 ''initialize'' False)), rest)"
  by (simp_all add: read_frame py_json_samples)

theorem handler_runs_before_next_read_witness:
  "running (adapter_writes start_adapter
       (frame py_json initialized_event @ frame py_json (response 2 ''launch'' True)))
   \<and> (\<exists>self'. read_messages_body py_json
          (adapter_writes start_adapter
             (frame py_json initialized_event @ frame py_json (response 2 ''launch'' True)))
         = Continue self'
       \<and> stdout (process self') = frame py_json (response 2 ''launch'' True)
       \<and> stdin (process self') = frame py_json (configuration_done_request 1)
       \<and> seq self' = 1)"
proof -
  define self where "self = adapter_writes start_adapter
       (frame py_json initialized_event @ frame py_json (response 2 ''launch'' True))"
  have r: "running self" by (simp add: self_def adapter_writes_def start_adapter_def)
  have o: "stdout (process self)
      = frame py_json initialized_event @ frame py_json (response 2 ''launch'' True)"
    by (simp add: self_def adapter_writes_def start_adapter_def)
  have i: "stdin (process self) = []" "seq self = 0"
    by (simp_all add: self_def adapter_writes_def start_adapter_def)
  have m: "DAPTester_read_message py_json (stdout (process self))
      = (Inr (Some (JObj [(''type'', JStr ''event''), (''event'', JStr ''initialized'')])),
         frame py_json (response 2 ''launch'' True))"
    unfolding o using read_sample_frames(1) [of "frame py_json (response 2 ''launch'' True)"]
    by (simp add: initialized_event_def)
  from handler_runs_before_next_read [OF r m] i r
  show ?thesis unfolding self_def [symmetric] by auto
qed


section \<open>Malformed headers\<close>

lemma no_content_length_raises:
  "\<not> list_ex (\<lambda>line. startswith line ''Content-Length:'') lines \<Longrightarrow>
   find_content_length lines = Inl ValueError"
  by (induction lines) simp_all

text \<open>
  Claim C6 says that a frame whose \<open>Content-Length\<close> value is not a number is refused.
  \<open>DAPTester._read_message\<close> takes \<open>line.split(':')[1]\<close>, the text between the first and
  the second colon, so of the value \<open>36:x\<close> it sees \<open>36\<close> only: the frame below is read
  as a message.  \<open>read_message\<close> of test\_correct\_sequence.py splits at the first colon
  only and refuses the same bytes.
\<close>

theorem content_length_with_colon_is_accepted:
  "DAPTester_read_message py_json
      (''Content-Length: 36:x'' @ CRLF @ CRLF @ ''{\"type\": \"event\", \"event\": \"output\"}'')
     = (Inr (Some (JObj [(''type'', JStr ''event''), (''event'', JStr ''output'')])), [])
   \<and> read_message py_json True
      (''Content-Length: 36:x'' @ CRLF @ CRLF @ ''{\"type\": \"event\", \"event\": \"output\"}'')
     = (None, ''{\"type\": \"event\", \"event\": \"output\"}'')"
  by code_simp


section \<open>Responses and waiting for them\<close>

lemma response_fields:
  "map_of [(''type'', JStr ''response''), (''request_seq'', JInt n), (''command'', JStr c),
           (''success'', JBool ok)] ''type'' = Some (JStr ''response'')"
  "map_of [(''type'', JStr ''response''), (''request_seq'', JInt n), (''command'', JStr c),
           (''success'', JBool ok)] ''request_seq'' = Some (JInt n)"
  "map_of [(''type'', JStr ''response''), (''request_seq'', JInt n), (''command'', JStr c),
           (''success'', JBool ok)] ''command'' = Some (JStr c)"
  by simp_all

lemma body_sample_response:
  assumes "DAPTester_read_message py_json (stdout (process self))
      = (Inr (Some (response n c ok)), rest)"
  shows "read_messages_body py_json self =
     Continue (self\<lparr>process := (process self)\<lparr>stdout := rest\<rparr>,
                    received_responses := (received_responses self)(KInt n \<mapsto> response n c ok),
                    timing_log := timing_log self @ [RECV_RESP (Some (JStr c)) (Some (JInt n))]\<rparr>)"
  using body_response [of py_json self _ rest "KInt n"] assms
  unfolding response_def by (simp only: response_fields to_key.simps)

lemma send_initialize_eq:
  "send_initialize J self =
     Inr (seq self + 1,
          self\<lparr>seq := seq self + 1,
               timing_log := timing_log self
                 @ [SEND_REQ (Some (JStr ''initialize'')) (Some (JInt (seq self + 1)))],
               process := (process self)
                 \<lparr>stdin := stdin (process self) @ frame J (initialize_request (seq self + 1))\<rparr>\<rparr>)"
  by (simp add: send_initialize_def initialize_request_def send_message_dict)

lemma initialize_sent: "send_initialize py_json start_adapter = Inr (1, initialize_sent)"
  by (simp add: send_initialize_eq initialize_sent_def start_adapter_def)

lemma wait_timeout:
  "list_all (\<lambda>self. received_responses self (KInt n) = None) polls \<Longrightarrow>
   wait_for_response n polls = Inl TimeoutError"
  by (induction polls) simp_all

lemma wait_first_hit:
  "list_all (\<lambda>self. received_responses self (KInt n) = None) before \<Longrightarrow>
   received_responses self (KInt n) = Some r \<Longrightarrow>
   wait_for_response n (before @ self # after) = Inr r"
  by (induction before) simp_all


lemma initialize_sent_fields:
  "running (adapter_writes initialize_sent b)"
  "stdout (process (adapter_writes initialize_sent b)) = b"
  "stdin (process (adapter_writes initialize_sent b)) = frame py_json (initialize_request 1)"
  "seq (adapter_writes initialize_sent b) = 1"
  "received_events (adapter_writes initialize_sent b) = []"
  "received_responses (adapter_writes initialize_sent b) = Map.empty"
  "timing_log (adapter_writes initialize_sent b)
     = [SPAWN, SPAWN, SEND_REQ (Some (JStr ''initialize'')) (Some (JInt 1))]"
  "received_responses initialize_sent = Map.empty"
  by (simp_all add: adapter_writes_def initialize_sent_def start_adapter_def)

text \<open>
  Claim C9, as stated, fails.  Only sequence number 1 has been issued; a response with
  \<open>request_seq\<close> 7 arrives.  The loop files it under 7 and logs it as a received response
  like any other; nothing reports a violation, and a wait for 7 is answered with it.
\<close>

theorem stray_response_is_accepted:
  "seq initialize_sent = 1
   \<and> (\<exists>self'. read_messages_body py_json
                  (adapter_writes initialize_sent (frame py_json (response 7 ''launch'' True)))
                = Continue self'
          \<and> received_responses self' = [KInt 7 \<mapsto> response 7 ''launch'' True]
          \<and> timing_log self'
              = [SPAWN, SPAWN, SEND_REQ (Some (JStr ''initialize'')) (Some (JInt 1)),
                 RECV_RESP (Some (JStr ''launch'')) (Some (JInt 7))]
          \<and> received_events self' = []
          \<and> stdin (process self') = frame py_json (initialize_request 1)
          \<and> wait_for_response 7 [self'] = Inr (response 7 ''launch'' True))"
proof -
  define self where
    "self = adapter_writes initialize_sent (frame py_json (response 7 ''launch'' True))"
  define self' where "self' =
    self\<lparr>process := (process self)\<lparr>stdout := []\<rparr>,
          received_responses := (received_responses self)(KInt 7 \<mapsto> response 7 ''launch'' True),
          timing_log := timing_log self @ [RECV_RESP (Some (JStr ''launch'')) (Some (JInt 7))]\<rparr>"
  have f: "stdin (process self) = frame py_json (initialize_request 1)"
    "received_events self = []" "received_responses self = Map.empty"
    "timing_log self = [SPAWN, SPAWN, SEND_REQ (Some (JStr ''initialize'')) (Some (JInt 1))]"
    by (simp_all add: self_def initialize_sent_fields)
  have "DAPTester_read_message py_json (stdout (process self))
      = (Inr (Some (response 7 ''launch'' True)), [])"
    using read_sample_frames(2) [of "[]"] by (simp add: self_def initialize_sent_fields)
  then have b: "read_messages_body py_json self = Continue self'"
    unfolding self'_def by (rule body_sample_response)
  have s: "seq initialize_sent = 1" by (simp add: initialize_sent_def)
  have "received_responses self' = [KInt 7 \<mapsto> response 7 ''launch'' True]"
    "timing_log self' = [SPAWN, SPAWN, SEND_REQ (Some (JStr ''initialize'')) (Some (JInt 1)),
                 RECV_RESP (Some (JStr ''launch'')) (Some (JInt 7))]"
    "received_events self' = []"
    "stdin (process self') = frame py_json (initialize_request 1)"
    "wait_for_response 7 [self'] = Inr (response 7 ''launch'' True)"
    by (simp_all add: self'_def f)
  with b s show ?thesis unfolding self_def [symmetric] by blast
qed

text \<open>
  Claim C9, amended.  A response is handled the same way whether or not its
  \<open>request_seq\<close> was ever issued: if that value can be a dict key (anything but a list or
  a dict), the pass files the response under it in \<open>received_responses\<close>, logs it as a
  received response, writes nothing, and ends normally; no violation is reported.  The
  loop goes on from there with the rest of the adapter's output, so the messages that
  follow are still read and handled.
\<close>

theorem any_response_is_filed_and_loop_goes_on:
  assumes "running self"
    and "DAPTester_read_message J (stdout (process self)) = (Inr (Some (JObj kv)), rest)"
    and "map_of kv ''type'' = Some (JStr ''response'')"
    and "to_key (map_of kv ''request_seq'') = Inr k"
  shows "\<exists>self'. read_messages_body J self = Continue self'
           \<and> DAPTester_read_messages J self = DAPTester_read_messages J self'
           \<and> running self'
           \<and> stdout (process self') = rest
           \<and> stdin (process self') = stdin (process self)
           \<and> seq self' = seq self
           \<and> received_events self' = received_events self
           \<and> received_responses self' = (received_responses self)(k \<mapsto> JObj kv)
           \<and> timing_log self'
               = timing_log self @ [RECV_RESP (map_of kv ''command'') (map_of kv ''request_seq'')]"
proof -
  define self' where "self' =
    self\<lparr>process := (process self)\<lparr>stdout := rest\<rparr>,
          received_responses := (received_responses self)(k \<mapsto> JObj kv),
          timing_log := timing_log self
            @ [RECV_RESP (map_of kv ''command'') (map_of kv ''request_seq'')]\<rparr>"
  have b: "read_messages_body J self = Continue self'"
    using body_response [OF assms(2,3,4)] by (simp add: self'_def)
  have "DAPTester_read_messages J self = DAPTester_read_messages J self'"
    using assms(1) b by (subst DAPTester_read_messages.simps) simp
  with b show ?thesis
    using assms(1) by (intro exI [of _ self']) (simp add: self'_def)
qed

theorem any_response_is_filed_and_loop_goes_on_witness:
  "running (adapter_writes initialize_sent
       (frame py_json (response 7 ''launch'' True) @ frame py_json initialized_event))
   \<and> DAPTester_read_message py_json
         (stdout (process (adapter_writes initialize_sent
            (frame py_json (response 7 ''launch'' True) @ frame py_json initialized_event))))
       = (Inr (Some (JObj [(''type'', JStr ''response''), (''request_seq'', JInt 7),
                           (''command'', JStr ''launch''), (''success'', JBool True)])),
          frame py_json initialized_event)
   \<and> (\<exists>self'. read_messages_body py_json
          (adapter_writes initialize_sent
             (frame py_json (response 7 ''launch'' True) @ frame py_json initialized_event))
         = Continue self'
        \<and> running self'
        \<and> stdout (process self') = frame py_json initialized_event
        \<and> seq self' = 1
        \<and> received_responses self' = [KInt 7 \<mapsto> response 7 ''launch'' True])"
proof -
  define self where "self = adapter_writes initialize_sent
       (frame py_json (response 7 ''launch'' True) @ frame py_json initialized_event)"
  have r: "running self" by (simp add: self_def initialize_sent_fields)
  have m: "DAPTester_read_message py_json (stdout (process self))
      = (Inr (Some (JObj [(''type'', JStr ''response''), (''request_seq'', JInt 7),
                          (''command'', JStr ''launch''), (''success'', JBool True)])),
         frame py_json initialized_event)"
    using read_sample_frames(2) [of "frame py_json initialized_event"]
    by (simp add: self_def initialize_sent_fields response_def)
  have t: "map_of [(''type'', JStr ''response''), (''request_seq'', JInt 7),
                   (''command'', JStr ''launch''), (''success'', JBool True)] ''type''
      = Some (JStr ''response'')" by simp
  have k: "to_key (map_of [(''type'', JStr ''response''), (''request_seq'', JInt 7),
                   (''command'', JStr ''launch''), (''success'', JBool True)] ''request_seq'')
      = Inr (KInt 7)" by simp
  from any_response_is_filed_and_loop_goes_on [OF r m t k] r m
  show ?thesis
    unfolding self_def [symmetric]
    by (auto simp: self_def initialize_sent_fields response_def)
qed


text \<open>
  Claim C7, as stated, fails in its second half.  The wait for sequence number 1 times
  out; nothing is removed, since nothing was registered.  The response for 1 that arrives
  afterwards is filed and logged like any other, and the next wait for 1 returns it.
\<close>

theorem late_response_fulfils_later_wait:
  "wait_for_response 1 [initialize_sent, initialize_sent] = Inl TimeoutError
   \<and> (\<exists>self'. read_messages_body py_json
                  (adapter_writes initialize_sent (frame py_json (response 1 ''initialize'' True)))
                = Continue self'
          \<and> timing_log self'
              = [SPAWN, SPAWN, SEND_REQ (Some (JStr ''initialize'')) (Some (JInt 1)),
                 RECV_RESP (Some (JStr ''initialize'')) (Some (JInt 1))]
          \<and> received_responses self' = [KInt 1 \<mapsto> response 1 ''initialize'' True]
          \<and> wait_for_response 1 [self'] = Inr (response 1 ''initialize'' True))"
proof -
  define self where
    "self = adapter_writes initialize_sent (frame py_json (response 1 ''initialize'' True))"
  define self' where "self' =
    self\<lparr>process := (process self)\<lparr>stdout := []\<rparr>,
          received_responses := (received_responses self)(KInt 1 \<mapsto> response 1 ''initialize'' True),
          timing_log := timing_log self @ [RECV_RESP (Some (JStr ''initialize'')) (Some (JInt 1))]\<rparr>"
  have f: "received_responses self = Map.empty"
    "timing_log self = [SPAWN, SPAWN, SEND_REQ (Some (JStr ''initialize'')) (Some (JInt 1))]"
    by (simp_all add: self_def initialize_sent_fields)
  have "DAPTester_read_message py_json (stdout (process self))
      = (Inr (Some (response 1 ''initialize'' True)), [])"
    using read_sample_frames(3) [of "[]"] by (simp add: self_def initialize_sent_fields)
  then have b: "read_messages_body py_json self = Continue self'"
    unfolding self'_def by (rule body_sample_response)
  have t: "wait_for_response 1 [initialize_sent, initialize_sent] = Inl TimeoutError"
    by (simp add: initialize_sent_fields)
  have "timing_log self' = [SPAWN, SPAWN, SEND_REQ (Some (JStr ''initialize'')) (Some (JInt 1)),
                 RECV_RESP (Some (JStr ''initialize'')) (Some (JInt 1))]"
    "received_responses self' = [KInt 1 \<mapsto> response 1 ''initialize'' True]"
    "wait_for_response 1 [self'] = Inr (response 1 ''initialize'' True)"
    by (simp_all add: self'_def f)
  with b t show ?thesis unfolding self_def [symmetric] by blast
qed

text \<open>
  Claim C7, amended.  If no lookup made before the deadline finds a response for the
  sequence number \<open>n\<close>, \<open>wait_for_response\<close> raises TimeoutError; it changes nothing in
  the tester (there is no pending entry to remove).  A response for \<open>n\<close> that the reader
  loop reads afterwards is filed under \<open>n\<close> and logged as a received response, and every
  wait for \<open>n\<close> that looks at the tester from then on returns it.
\<close>

theorem timeout_then_late_response_is_filed:
  assumes "list_all (\<lambda>self. received_responses self (KInt n) = None) polls"
    and "DAPTester_read_message J (stdout (process late)) = (Inr (Some (JObj kv)), rest)"
    and "map_of kv ''type'' = Some (JStr ''response'')"
    and "map_of kv ''request_seq'' = Some (JInt n)"
  shows "wait_for_response n polls = Inl TimeoutError
       \<and> (\<exists>self'. read_messages_body J late = Continue self'
              \<and> received_responses self' = (received_responses late)(KInt n \<mapsto> JObj kv)
              \<and> timing_log self'
                  = timing_log late @ [RECV_RESP (map_of kv ''command'') (Some (JInt n))]
              \<and> (\<forall>later. wait_for_response n (self' # later) = Inr (JObj kv)))"
proof -
  define self' where "self' =
    late\<lparr>process := (process late)\<lparr>stdout := rest\<rparr>,
          received_responses := (received_responses late)(KInt n \<mapsto> JObj kv),
          timing_log := timing_log late
            @ [RECV_RESP (map_of kv ''command'') (map_of kv ''request_seq'')]\<rparr>"
  have k: "to_key (map_of kv ''request_seq'') = Inr (KInt n)"
    using assms(4) by simp
  have b: "read_messages_body J late = Continue self'"
    using body_response [OF assms(2,3) k] by (simp add: self'_def)
  have "received_responses self' = (received_responses late)(KInt n \<mapsto> JObj kv)"
    "timing_log self' = timing_log late @ [RECV_RESP (map_of kv ''command'') (Some (JInt n))]"
    "\<forall>later. wait_for_response n (self' # later) = Inr (JObj kv)"
    using assms(4) by (simp_all add: self'_def)
  with b wait_timeout [OF assms(1)] show ?thesis by blast
qed

theorem timeout_then_late_response_is_filed_witness:
  "list_all (\<lambda>self. received_responses self (KInt 1) = None) [initialize_sent, initialize_sent]
   \<and> DAPTester_read_message py_json
         (stdout (process (adapter_writes initialize_sent
            (frame py_json (response 1 ''initialize'' True)))))
       = (Inr (Some (JObj [(''type'', JStr ''response''), (''request_seq'', JInt 1),
                           (''command'', JStr ''initialize''), (''success'', JBool True)])), [])
   \<and> wait_for_response 1 [initialize_sent, initialize_sent] = Inl TimeoutError
   \<and> (\<exists>self'. read_messages_body py_json
                  (adapter_writes initialize_sent (frame py_json (response 1 ''initialize'' True)))
                = Continue self'
          \<and> (\<forall>later. wait_for_response 1 (self' # later) = Inr (response 1 ''initialize'' True)))"
proof -
  define late where
    "late = adapter_writes initialize_sent (frame py_json (response 1 ''initialize'' True))"
  have p: "list_all (\<lambda>self. received_responses self (KInt 1) = None)
      [initialize_sent, initialize_sent]"
    by (simp add: initialize_sent_fields)
  have m: "DAPTester_read_message py_json (stdout (process late))
      = (Inr (Some (JObj [(''type'', JStr ''response''), (''request_seq'', JInt 1),
                          (''command'', JStr ''initialize''), (''success'', JBool True)])), [])"
    using read_sample_frames(3) [of "[]"]
    by (simp add: late_def initialize_sent_fields response_def)
  have t: "map_of [(''type'', JStr ''response''), (''request_seq'', JInt 1),
                   (''command'', JStr ''initialize''), (''success'', JBool True)] ''type''
      = Some (JStr ''response'')" by simp
  have k: "map_of [(''type'', JStr ''response''), (''request_seq'', JInt 1),
                   (''command'', JStr ''initialize''), (''success'', JBool True)] ''request_seq''
      = Some (JInt 1)" by simp
  from timeout_then_late_response_is_filed [OF p m t k]
  obtain self' where w: "wait_for_response 1 [initialize_sent, initialize_sent] = Inl TimeoutError"
    and b: "read_messages_body py_json late = Continue self'"
    and l: "\<forall>later. wait_for_response 1 (self' # later)
        = Inr (JObj [(''type'', JStr ''response''), (''request_seq'', JInt 1),
                     (''command'', JStr ''initialize''), (''success'', JBool True)])"
    by blast
  have "\<exists>self'. read_messages_body py_json late = Continue self'
      \<and> (\<forall>later. wait_for_response 1 (self' # later) = Inr (response 1 ''initialize'' True))"
    using b l unfolding response_def by (intro exI [of _ self'] conjI)
  with p m w show ?thesis unfolding late_def [symmetric] by (intro conjI)
qed


text \<open>
  Claim C8, as stated, fails in its second half.  The response for sequence number 1 is
  delivered; every wait for 1 returns it, a second wait as well as the first, since the
  wait takes nothing out.  A duplicate response for 1 that arrives later takes its place,
  and the waits for 1 that follow return the duplicate.
\<close>

theorem response_is_returned_again_and_replaced:
  "\<exists>self1 self2.
     read_messages_body py_json
         (adapter_writes initialize_sent
            (frame py_json (response 1 ''initialize'' True)
             @ frame py_json (response 1 ''initialize'' False)))
       = Continue self1
     \<and> (\<forall>polls. wait_for_response 1 (self1 # polls) = Inr (response 1 ''initialize'' True))
     \<and> read_messages_body py_json self1 = Continue self2
     \<and> (\<forall>polls. wait_for_response 1 (self2 # polls) = Inr (response 1 ''initialize'' False))"
proof -
  define self where
    "self = adapter_writes initialize_sent
       (frame py_json (response 1 ''initialize'' True)
        @ frame py_json (response 1 ''initialize'' False))"
  define self1 where "self1 =
    self\<lparr>process := (process self)\<lparr>stdout := frame py_json (response 1 ''initialize'' False)\<rparr>,
          received_responses := (received_responses self)(KInt 1 \<mapsto> response 1 ''initialize'' True),
          timing_log := timing_log self @ [RECV_RESP (Some (JStr ''initialize'')) (Some (JInt 1))]\<rparr>"
  define self2 where "self2 =
    self1\<lparr>process := (process self1)\<lparr>stdout := []\<rparr>,
          received_responses := (received_responses self1)(KInt 1 \<mapsto> response 1 ''initialize'' False),
          timing_log := timing_log self1 @ [RECV_RESP (Some (JStr ''initialize'')) (Some (JInt 1))]\<rparr>"
  have "DAPTester_read_message py_json (stdout (process self))
      = (Inr (Some (response 1 ''initialize'' True)), frame py_json (response 1 ''initialize'' False))"
    using read_sample_frames(3) [of "frame py_json (response 1 ''initialize'' False)"]
    by (simp add: self_def initialize_sent_fields)
  then have b1: "read_messages_body py_json self = Continue self1"
    unfolding self1_def by (rule body_sample_response)
  have "DAPTester_read_message py_json (stdout (process self1))
      = (Inr (Some (response 1 ''initialize'' False)), [])"
    using read_sample_frames(4) [of "[]"] by (simp add: self1_def)
  then have b2: "read_messages_body py_json self1 = Continue self2"
    unfolding self2_def by (rule body_sample_response)
  have "\<forall>polls. wait_for_response 1 (self1 # polls) = Inr (response 1 ''initialize'' True)"
    "\<forall>polls. wait_for_response 1 (self2 # polls) = Inr (response 1 ''initialize'' False)"
    by (simp_all add: self1_def self2_def)
  with b1 b2 show ?thesis unfolding self_def [symmetric] by blast
qed

text \<open>
  Claim C8, amended.  When the reader loop reads a response whose \<open>request_seq\<close> is the
  number \<open>n\<close>, it files the response under \<open>n\<close>, in place of whatever was filed there
  before.  From then on \<open>wait_for_response n\<close> returns exactly that response as soon as
  one of its lookups sees the tester in that state, and it does so in every wait, the
  first and the later ones alike: the entry is never taken out.  A duplicate response for
  \<open>n\<close> is filed in the same way and is what the waits after it return.
\<close>

theorem wait_returns_the_filed_response:
  assumes "DAPTester_read_message J (stdout (process self)) = (Inr (Some (JObj kv)), rest)"
    and "map_of kv ''type'' = Some (JStr ''response'')"
    and "map_of kv ''request_seq'' = Some (JInt n)"
    and "list_all (\<lambda>p. received_responses p (KInt n) = None) before"
  shows "\<exists>self'. read_messages_body J self = Continue self'
           \<and> received_responses self' = (received_responses self)(KInt n \<mapsto> JObj kv)
           \<and> (\<forall>after. wait_for_response n (before @ self' # after) = Inr (JObj kv))"
proof -
  define self' where "self' =
    self\<lparr>process := (process self)\<lparr>stdout := rest\<rparr>,
          received_responses := (received_responses self)(KInt n \<mapsto> JObj kv),
          timing_log := timing_log self
            @ [RECV_RESP (map_of kv ''command'') (map_of kv ''request_seq'')]\<rparr>"
  have k: "to_key (map_of kv ''request_seq'') = Inr (KInt n)"
    using assms(3) by simp
  have b: "read_messages_body J self = Continue self'"
    using body_response [OF assms(1,2) k] by (simp add: self'_def)
  have r: "received_responses self' = (received_responses self)(KInt n \<mapsto> JObj kv)"
    by (simp add: self'_def)
  then have "received_responses self' (KInt n) = Some (JObj kv)" by simp
  then have "\<forall>after. wait_for_response n (before @ self' # after) = Inr (JObj kv)"
    using wait_first_hit [OF assms(4)] by blast
  with b r show ?thesis by blast
qed

theorem wait_returns_the_filed_response_witness:
  "DAPTester_read_message py_json
       (stdout (process (adapter_writes initialize_sent
          (frame py_json (response 1 ''initialize'' True)))))
     = (Inr (Some (JObj [(''type'', JStr ''response''), (''request_seq'', JInt 1),
                         (''command'', JStr ''initialize''), (''success'', JBool True)])), [])
   \<and> list_all (\<lambda>p. received_responses p (KInt 1) = None) [initialize_sent]
   \<and> (\<exists>self'. read_messages_body py_json
                  (adapter_writes initialize_sent (frame py_json (response 1 ''initialize'' True)))
                = Continue self'
          \<and> (\<forall>after. wait_for_response 1 (initialize_sent # self' # after)
                 = Inr (response 1 ''initialize'' True)))"
proof -
  define self where
    "self = adapter_writes initialize_sent (frame py_json (response 1 ''initialize'' True))"
  have p: "list_all (\<lambda>p. received_responses p (KInt 1) = None) [initialize_sent]"
    by (simp add: initialize_sent_fields)
  have m: "DAPTester_read_message py_json (stdout (process self))
      = (Inr (Some (JObj [(''type'', JStr ''response''), (''request_seq'', JInt 1),
                          (''command'', JStr ''initialize''), (''success'', JBool True)])), [])"
    using read_sample_frames(3) [of "[]"]
    by (simp add: self_def initialize_sent_fields response_def)
  have t: "map_of [(''type'', JStr ''response''), (''request_seq'', JInt 1),
                   (''command'', JStr ''initialize''), (''success'', JBool True)] ''type''
      = Some (JStr ''response'')" by simp
  have k: "map_of [(''type'', JStr ''response''), (''request_seq'', JInt 1),
                   (''command'', JStr ''initialize''), (''success'', JBool True)] ''request_seq''
      = Some (JInt 1)" by simp
  from wait_returns_the_filed_response [OF m t k p]
  obtain self' where b: "read_messages_body py_json self = Continue self'"
    and l: "\<forall>after. wait_for_response 1 ([initialize_sent] @ self' # after)
        = Inr (JObj [(''type'', JStr ''response''), (''request_seq'', JInt 1),
                     (''command'', JStr ''initialize''), (''success'', JBool True)])"
    by blast
  have "\<exists>self'. read_messages_body py_json self = Continue self'
      \<and> (\<forall>after. wait_for_response 1 (initialize_sent # self' # after)
             = Inr (response 1 ''initialize'' True))"
    using b l unfolding response_def by (intro exI [of _ self'] conjI) simp_all
  with p m show ?thesis unfolding self_def [symmetric] by (intro conjI)
qed


section \<open>The order of the handshake requests\<close>







section \<open>Properties of fizzbuzz\<close>

lemma fifteen_dvd_iff: "(15 dvd (n::int)) = (3 dvd n \<and> 5 dvd n)"
proof
  assume "15 dvd n"
  then obtain k where "n = 15 * k" by (auto elim: dvdE)
  then have "n = 3 * (5 * k)" and "n = 5 * (3 * k)" by simp_all
  then show "3 dvd n \<and> 5 dvd n" by (metis dvd_triv_left)
next
  assume "3 dvd n \<and> 5 dvd n"
  then show "15 dvd n" by presburger
qed

text \<open>
  Claim C10.  For every integer \<open>n\<close>, \<open>fizzbuzz n\<close> is \<open>FizzBuzz\<close> when 15 divides
  \<open>n\<close>, \<open>Fizz\<close> when 3 divides \<open>n\<close> and 5 does not, \<open>Buzz\<close> when 5 divides \<open>n\<close>
  and 3 does not, and the decimal string \<open>str n\<close> otherwise.
\<close>

theorem fizzbuzz_spec:
  "fizzbuzz n =
     (if 15 dvd n then ''FizzBuzz''
      else if 3 dvd n \<and> \<not> 5 dvd n then ''Fizz''
      else if 5 dvd n \<and> \<not> 3 dvd n then ''Buzz''
      else str n)"
  unfolding fizzbuzz_def
  by (simp add: mod_eq_0_iff_dvd fifteen_dvd_iff)

lemma fizzbuzz_examples:
  "fizzbuzz 30 = ''FizzBuzz''" "fizzbuzz 9 = ''Fizz''" "fizzbuzz (- 10) = ''Buzz''"
  "fizzbuzz 7 = ''7''" "fizzbuzz 98 = ''98''" "fizzbuzz (- 4) = ''-4''"
  by (simp_all add: fizzbuzz_def str_def str_nat.simps digit_char_def)

end
